theory Spec2Isabelle
  imports Complex_Main "HOL-Library.Option_ord" "HOL-Library.Multiset"
begin

section \<open>Python values\<close>

text \<open>
  The importer works on decoded JSON: the body of a GIS response, the features in it,
  each feature's property bag and geometry. A decoded value is \<open>None\<close>, a bool, a
  number, a string, a list or a dict. A number is kept as its exact rational value
  (every finite float and every int is one); a dict is an association list that is read
  with \<open>map_of\<close>. Strings are ASCII.
\<close>

datatype json =
    JNull
  | JBool bool
  | JNum rat
  | JStr string
  | JArr "json list"
  | JObj "(string \<times> json) list"

text \<open>The exceptions the importer can meet; all of them are subclasses of \<open>Exception\<close>.\<close>

datatype exn = AttributeError | TypeError | KeyError | IndexError

text \<open>Truth value testing: \<open>None\<close>, \<open>False\<close>, zero and the empty containers are falsy.\<close>

fun truthy :: "json \<Rightarrow> bool" where
  "truthy JNull = False"
| "truthy (JBool b) = b"
| "truthy (JNum r) = (r \<noteq> 0)"
| "truthy (JStr s) = (s \<noteq> [])"
| "truthy (JArr xs) = (xs \<noteq> [])"
| "truthy (JObj kvs) = (kvs \<noteq> [])"

text \<open>\<open>d.get(k)\<close> and \<open>d.get(k, default)\<close> on a dict.\<close>

definition dict_get :: "(string \<times> json) list \<Rightarrow> string \<Rightarrow> json" where
  "dict_get d k = (case map_of d k of None \<Rightarrow> JNull | Some v \<Rightarrow> v)"

definition dict_get_default :: "(string \<times> json) list \<Rightarrow> string \<Rightarrow> json \<Rightarrow> json" where
  "dict_get_default d k dflt = (case map_of d k of None \<Rightarrow> dflt | Some v \<Rightarrow> v)"

text \<open>\<open>a or b\<close> on two values that are already evaluated.\<close>

definition py_or :: "json \<Rightarrow> json \<Rightarrow> json" where
  "py_or a b = (if truthy a then a else b)"

text \<open>\<open>str.upper\<close> on ASCII text.\<close>

definition upper_char :: "char \<Rightarrow> char" where
  "upper_char c =
     (if (97::nat) \<le> of_char c \<and> of_char c \<le> (122::nat) then char_of (of_char c - (32::nat)) else c)"

definition upper :: "string \<Rightarrow> string" where
  "upper s = map upper_char s"

text \<open>\<open>str.strip\<close>: the whitespace of \<open>str.isspace\<close> among the code points below 256.\<close>

definition is_space :: "char \<Rightarrow> bool" where
  "is_space c = (of_char c \<in> {9, 10, 11, 12, 13, 28, 29, 30, 31, 32, 133, 160 :: nat})"

definition strip :: "string \<Rightarrow> string" where
  "strip s = rev (dropWhile is_space (rev (dropWhile is_space s)))"

text \<open>\<open>sub in s\<close> on two strings: \<open>sub\<close> occurs in \<open>s\<close> as a contiguous run.\<close>

fun starts_with :: "string \<Rightarrow> string \<Rightarrow> bool" where
  "starts_with [] s = True"
| "starts_with (c # cs) [] = False"
| "starts_with (c # cs) (d # ds) = (c = d \<and> starts_with cs ds)"

fun str_contains :: "string \<Rightarrow> string \<Rightarrow> bool" where
  "str_contains sub [] = (sub = [])"
| "str_contains sub (d # ds) = (starts_with sub (d # ds) \<or> str_contains sub ds)"

text \<open>
  \<open>code in zoning\<close> for a string \<open>code\<close>: a substring test on a string, a membership test
  on a list, a key test on a dict, and a \<open>TypeError\<close> on anything else.
\<close>

fun py_in :: "string \<Rightarrow> json \<Rightarrow> exn + bool" where
  "py_in code (JStr s) = Inr (str_contains code s)"
| "py_in code (JArr xs) = Inr (JStr code \<in> set xs)"
| "py_in code (JObj kvs) = Inr (code \<in> fst ` set kvs)"
| "py_in code v = Inl TypeError"

text \<open>
  \<open>any(code in zoning for code in codes)\<close>: the generator stops at the first hit, and
  an exception of a test that is reached propagates.
\<close>

fun any_in :: "string list \<Rightarrow> json \<Rightarrow> exn + bool" where
  "any_in [] z = Inr False"
| "any_in (c # cs) z = (case py_in c z of Inl e \<Rightarrow> Inl e | Inr True \<Rightarrow> Inr True | Inr False \<Rightarrow> any_in cs z)"

section \<open>Feature normalizer (data\_import.py)\<close>

text \<open>
  \<open>_combine_owner_names\<close>: each name is \<open>properties.get(key, '').strip()\<close>, so the key's
  value must be a string; \<open>None\<close> and every other value have no \<open>strip\<close>.
\<close>

definition name_field :: "(string \<times> json) list \<Rightarrow> string \<Rightarrow> exn + string" where
  "name_field properties k =
     (case dict_get_default properties k (JStr []) of
        JStr s \<Rightarrow> Inr (strip s)
      | _ \<Rightarrow> Inl AttributeError)"

definition combine_owner_names :: "(string \<times> json) list \<Rightarrow> exn + string" where
  "combine_owner_names properties =
     (case name_field properties ''Owner_FirstName'' of
        Inl e \<Rightarrow> Inl e
      | Inr first_name \<Rightarrow>
          (case name_field properties ''Owner_LastName'' of
             Inl e \<Rightarrow> Inl e
           | Inr last_name \<Rightarrow>
               Inr (if first_name \<noteq> [] \<and> last_name \<noteq> [] then first_name @ '' '' @ last_name
                    else if first_name \<noteq> [] then first_name
                    else if last_name \<noteq> [] then last_name
                    else [])))"

text \<open>
  \<open>_determine_land_use\<close>. The first line is
  \<open>zoning = properties.get('ZoneDes') or properties.get('zoning', '').upper()\<close>:
  \<open>.upper()\<close> belongs to the second operand only, and that operand is evaluated only when
  the first is falsy.
\<close>

definition zoning_text :: "(string \<times> json) list \<Rightarrow> exn + json" where
  "zoning_text properties =
     (if truthy (dict_get properties ''ZoneDes'') then Inr (dict_get properties ''ZoneDes'')
      else (case dict_get_default properties ''zoning'' (JStr []) of
              JStr s \<Rightarrow> Inr (JStr (upper s))
            | _ \<Rightarrow> Inl AttributeError))"

definition classify :: "json \<Rightarrow> exn + string" where
  "classify zoning =
     (case any_in [''R-'', ''RES''] zoning of
        Inl e \<Rightarrow> Inl e
      | Inr True \<Rightarrow> Inr ''Residential''
      | Inr False \<Rightarrow>
     (case any_in [''C-'', ''COM''] zoning of
        Inl e \<Rightarrow> Inl e
      | Inr True \<Rightarrow> Inr ''Commercial''
      | Inr False \<Rightarrow>
     (case any_in [''I-'', ''IND''] zoning of
        Inl e \<Rightarrow> Inl e
      | Inr True \<Rightarrow> Inr ''Industrial''
      | Inr False \<Rightarrow>
     (case any_in [''AG'', ''AGR''] zoning of
        Inl e \<Rightarrow> Inl e
      | Inr True \<Rightarrow> Inr ''Agricultural''
      | Inr False \<Rightarrow> Inr ''Mixed Use''))))"

definition determine_land_use :: "(string \<times> json) list \<Rightarrow> exn + string" where
  "determine_land_use properties =
     (case zoning_text properties of Inl e \<Rightarrow> Inl e | Inr zoning \<Rightarrow> classify zoning)"

text \<open>
  Two computations of the importer run on floating-point numbers and are taken from the
  Python runtime: \<open>float(s)\<close> on a string (\<open>None\<close> for a \<open>ValueError\<close>), and the loop of
  \<open>_calculate_road_frontage\<close> over a polygon's outer ring together with its final
  \<open>int(perimeter * 111000)\<close> (\<open>None\<close> when any step of it raises).
\<close>

record pyenv =
  float_of_str :: "string \<Rightarrow> rat option"
  perimeter_feet :: "json \<Rightarrow> int option"

text \<open>
  \<open>_parse_acres\<close>: \<open>None\<close> stays \<open>None\<close>; \<open>ValueError\<close> and \<open>TypeError\<close> give \<open>None\<close>. A number
  is taken to be in the range of a float (\<open>float\<close> of a larger int raises \<open>OverflowError\<close>,
  which \<open>_parse_acres\<close> does not catch).
\<close>

fun parse_acres :: "pyenv \<Rightarrow> json \<Rightarrow> rat option" where
  "parse_acres env JNull = None"
| "parse_acres env (JNum r) = Some r"
| "parse_acres env (JBool b) = Some (if b then 1 else 0)"
| "parse_acres env (JStr s) = float_of_str env s"
| "parse_acres env (JArr xs) = None"
| "parse_acres env (JObj kvs) = None"

text \<open>\<open>v[0]\<close>: the first element of a list, the first character of a string.\<close>

fun subscript0 :: "json \<Rightarrow> json option" where
  "subscript0 (JArr (x # xs)) = Some x"
| "subscript0 (JStr (c # cs)) = Some (JStr [c])"
| "subscript0 v = None"

text \<open>
  \<open>_calculate_road_frontage\<close>: the whole body is inside \<open>try\<close>, and every path that is
  not the polygon's \<open>return\<close> ends in \<open>return None\<close>.
\<close>

definition calculate_road_frontage :: "pyenv \<Rightarrow> json \<Rightarrow> int option" where
  "calculate_road_frontage env geometry =
     (case geometry of
        JObj g \<Rightarrow>
          (case map_of g ''type'' of
             None \<Rightarrow> None
           | Some t \<Rightarrow>
               if t = JStr ''Polygon'' then
                 (case map_of g ''coordinates'' of
                    None \<Rightarrow> None
                  | Some cs \<Rightarrow>
                      (case subscript0 cs of
                         None \<Rightarrow> None
                       | Some coords \<Rightarrow> perimeter_feet env coords))
               else None)
      | _ \<Rightarrow> None)"

definition determine_utilities :: "(string \<times> json) list \<Rightarrow> string list" where
  "determine_utilities properties = [''Water'', ''Sewer'', ''Electric'']"

text \<open>The dict that \<open>process_parcel_data\<close> builds for one feature.\<close>

record parcel_dict =
  pd_parcel_id :: json
  pd_address :: json
  pd_owner_name :: string
  pd_owner_address :: json
  pd_acres :: "rat option"
  pd_zoning_code :: json
  pd_land_use :: string
  pd_road_frontage :: "int option"
  pd_slope_percent :: "rat option"
  pd_utilities :: "string list"
  pd_geometry :: json

text \<open>
  The body of the loop of \<open>process_parcel_data\<close>, for one feature: \<open>Inl\<close> is an exception
  that reaches the loop's \<open>except Exception\<close>, \<open>Inr None\<close> a feature that is skipped by
  \<open>continue\<close> or by the check of the required fields. The entries of the dict literal
  are evaluated in the order they are written.
\<close>

definition process_feature :: "pyenv \<Rightarrow> json \<Rightarrow> exn + parcel_dict option" where
  "process_feature env feature =
     (case feature of
        JObj f \<Rightarrow>
          (let properties = dict_get_default f ''properties'' (JObj []);
               geometry = dict_get f ''geometry''
           in if \<not> truthy geometry then Inr None
              else (case properties of
                      JObj props \<Rightarrow>
                        (case combine_owner_names props of
                           Inl e \<Rightarrow> Inl e
                         | Inr owner \<Rightarrow>
                             (case determine_land_use props of
                                Inl e \<Rightarrow> Inl e
                              | Inr use \<Rightarrow>
                                  (let parcel_data = \<lparr>
                                         pd_parcel_id = py_or (dict_get props ''PID'') (dict_get props ''parcel_id''),
                                         pd_address = py_or (dict_get props ''Mailing_Address'') (dict_get props ''address''),
                                         pd_owner_name = owner,
                                         pd_owner_address = dict_get props ''Mailing_Address'',
                                         pd_acres = parse_acres env (py_or (dict_get props ''Total_Acreage'') (dict_get props ''acres'')),
                                         pd_zoning_code = py_or (dict_get props ''ZoneDes'') (dict_get props ''zoning''),
                                         pd_land_use = use,
                                         pd_road_frontage = calculate_road_frontage env geometry,
                                         pd_slope_percent = None,
                                         pd_utilities = determine_utilities props,
                                         pd_geometry = geometry \<rparr>
                                   in if truthy (pd_parcel_id parcel_data) \<and> truthy (pd_geometry parcel_data)
                                      then Inr (Some parcel_data) else Inr None)))
                    | _ \<Rightarrow> Inl AttributeError))
      | _ \<Rightarrow> Inl AttributeError)"

text \<open>The loop: a feature that raises or is skipped adds nothing; the loop goes on.\<close>

fun process_features :: "pyenv \<Rightarrow> json list \<Rightarrow> parcel_dict list" where
  "process_features env [] = []"
| "process_features env (feature # rest) =
     (case process_feature env feature of
        Inr (Some parcel_data) \<Rightarrow> parcel_data # process_features env rest
      | _ \<Rightarrow> process_features env rest)"

text \<open>\<open>for x in v\<close>: the elements of a list, the characters of a string, the keys of a dict.\<close>

fun py_iter :: "json \<Rightarrow> json list option" where
  "py_iter (JArr xs) = Some xs"
| "py_iter (JStr s) = Some (map (\<lambda>c. JStr [c]) s)"
| "py_iter (JObj kvs) = Some (map (\<lambda>kv. JStr (fst kv)) kvs)"
| "py_iter v = None"

text \<open>
  The features a layer's loop runs over: \<open>Inr None\<close> when the guard
  \<open>not data or 'features' not in data\<close> returns early, \<open>Inl\<close> when the membership test,
  the subscript or the iteration raises (all three are outside the loop's \<open>try\<close>).
\<close>

definition features_of :: "json \<Rightarrow> exn + json list option" where
  "features_of arcgis_data =
     (if \<not> truthy arcgis_data then Inr None
      else (case arcgis_data of
              JObj d \<Rightarrow>
                (case map_of d ''features'' of
                   None \<Rightarrow> Inr None
                 | Some fs \<Rightarrow> (case py_iter fs of None \<Rightarrow> Inl TypeError | Some xs \<Rightarrow> Inr (Some xs)))
            | JArr xs \<Rightarrow> if JStr ''features'' \<in> set xs then Inl TypeError else Inr None
            | JStr s \<Rightarrow> if str_contains ''features'' s then Inl TypeError else Inr None
            | _ \<Rightarrow> Inl TypeError))"

definition process_parcel_data :: "pyenv \<Rightarrow> json \<Rightarrow> exn + parcel_dict list" where
  "process_parcel_data env arcgis_data =
     (case features_of arcgis_data of
        Inl e \<Rightarrow> Inl e
      | Inr None \<Rightarrow> Inr []
      | Inr (Some fs) \<Rightarrow> Inr (process_features env fs))"

section \<open>Storage layer (database.py)\<close>

text \<open>
  The columns of table \<open>parcels\<close> that \<open>insert_parcel_data\<close> writes, with the types of
  \<open>create_tables\<close>: a nullable column is an option, \<open>None\<close> being SQL \<open>NULL\<close>; a decimal
  column holds a rational. The same record, with the geometry as the caller passes it,
  is the argument of \<open>insert_parcel_data\<close>. A row adds the two timestamps; the serial
  \<open>id\<close> is never read and is left out.
\<close>

record 'g parcel_data =
  parcel_id :: "string option"
  address :: "string option"
  owner_name :: "string option"
  owner_address :: "string option"
  acres :: "rat option"
  zoning_code :: "string option"
  land_use :: "string option"
  road_frontage :: "int option"
  slope_percent :: "rat option"
  utilities :: "string list"
  geometry :: 'g

record parcel_row = "json parcel_data" +
  created_at :: nat
  updated_at :: nat

text \<open>
  The geometry a caller passes: an object with a \<open>__geo_interface__\<close> (a Shapely shape),
  or any other value.
\<close>

datatype geometry_arg = GeoInterface json | GeoValue json

text \<open>
  The manager's state: whether a connection is there or can be opened (\<open>execute_query\<close>
  returns \<open>None\<close> when it cannot), and the two tables the core writes. The table is kept
  in the order in which the server scans it.
\<close>

record db =
  online :: bool
  parcels :: "parcel_row list"
  zoning_regulations :: "(string \<times> string option) list"

subsection \<open>Upsert\<close>

text \<open>\<open>ON CONFLICT (parcel_id) DO UPDATE SET ...\<close>: the ten columns and \<open>updated_at\<close>.\<close>

definition conflict_update :: "nat \<Rightarrow> json parcel_data \<Rightarrow> parcel_row \<Rightarrow> parcel_row" where
  "conflict_update now excluded r =
     r \<lparr> address := address excluded,
         owner_name := owner_name excluded,
         owner_address := owner_address excluded,
         acres := acres excluded,
         zoning_code := zoning_code excluded,
         land_use := land_use excluded,
         road_frontage := road_frontage excluded,
         slope_percent := slope_percent excluded,
         utilities := utilities excluded,
         geometry := geometry excluded,
         updated_at := now \<rparr>"

definition inserted_row :: "nat \<Rightarrow> json parcel_data \<Rightarrow> parcel_row" where
  "inserted_row now params =
     \<lparr> parcel_id = parcel_id params, address = address params,
       owner_name = owner_name params, owner_address = owner_address params,
       acres = acres params, zoning_code = zoning_code params,
       land_use = land_use params, road_frontage = road_frontage params,
       slope_percent = slope_percent params, utilities = utilities params,
       geometry = geometry params, created_at = now, updated_at = now \<rparr>"

definition upsert_row :: "nat \<Rightarrow> json parcel_data \<Rightarrow> parcel_row list \<Rightarrow> parcel_row list" where
  "upsert_row now params rows =
     (if parcel_id params \<in> parcel_id ` set rows
      then map (\<lambda>r. if parcel_id r = parcel_id params then conflict_update now params r else r) rows
      else rows @ [inserted_row now params])"

text \<open>
  \<open>execute_query\<close> on the insert statement. The statement fails, and the transaction is
  rolled back, when there is no connection, when \<open>parcel_id\<close> is \<open>NULL\<close> (the column is
  \<open>NOT NULL\<close>), and when the server rejects a value: a text longer than its column, a
  number out of range, a geometry that is not a polygon. What the server rejects is its
  own business, so \<open>accepts\<close> is a parameter. The result is the row count.
\<close>

definition execute_insert ::
  "(json parcel_data \<Rightarrow> bool) \<Rightarrow> nat \<Rightarrow> json parcel_data \<Rightarrow> db \<Rightarrow> nat option \<times> db" where
  "execute_insert accepts now params d =
     (if \<not> online d then (None, d)
      else if parcel_id params = None \<or> \<not> accepts params then (None, d)
      else (Some 1, d \<lparr> parcels := upsert_row now params (parcels d) \<rparr>))"

definition geometry_param :: "geometry_arg \<Rightarrow> json" where
  "geometry_param g = (case g of GeoInterface j \<Rightarrow> j | GeoValue v \<Rightarrow> v)"

definition insert_parcel_data ::
  "(json parcel_data \<Rightarrow> bool) \<Rightarrow> nat \<Rightarrow> geometry_arg parcel_data \<Rightarrow> db \<Rightarrow> bool \<times> db" where
  "insert_parcel_data accepts now parcel d =
     (let params = \<lparr> parcel_id = parcel_id parcel, address = address parcel,
                      owner_name = owner_name parcel, owner_address = owner_address parcel,
                      acres = acres parcel, zoning_code = zoning_code parcel,
                      land_use = land_use parcel, road_frontage = road_frontage parcel,
                      slope_percent = slope_percent parcel, utilities = utilities parcel,
                      geometry = geometry_param (geometry parcel) \<rparr>;
          (result, d') = execute_insert accepts now params d
      in (result \<noteq> None, d'))"

subsection \<open>Search\<close>

text \<open>
  The criteria dict, with the value types of the interface; \<open>None\<close> is an absent key.
  Key \<open>road_frontage\<close> is field \<open>min_road_frontage\<close> here, the column has the name.
\<close>

record criteria =
  min_acres :: "rat option"
  max_acres :: "rat option"
  zoning_type :: "string option"
  vacant_only :: "bool option"
  min_road_frontage :: "int option"
  slope_range :: "rat list option"

text \<open>
  The text of the \<open>WHERE\<close> clause, as tokens. A condition of \<open>search_parcels\<close> is a piece
  of SQL text; the vacancy condition is the three tokens
  \<open>owner_name IS NULL OR owner_name = ''\<close>, written without parentheses. The \<open>AND\<close> inside
  \<open>BETWEEN\<close> belongs to that operator and is part of its token.
\<close>

datatype atom =
    AcresGe rat
  | AcresLe rat
  | ZoningEq string
  | OwnerIsNull
  | OwnerEqEmpty
  | FrontageGe int
  | SlopeBetween rat rat
  | OneEqOne

datatype token = Cond atom | KwAnd | KwOr

definition where_conditions :: "criteria \<Rightarrow> token list list" where
  "where_conditions c =
     (case min_acres c of Some x \<Rightarrow> if x \<noteq> 0 then [[Cond (AcresGe x)]] else [] | None \<Rightarrow> []) @
     (case max_acres c of Some x \<Rightarrow> if x \<noteq> 0 then [[Cond (AcresLe x)]] else [] | None \<Rightarrow> []) @
     (case zoning_type c of Some z \<Rightarrow> if z \<noteq> [] then [[Cond (ZoningEq z)]] else [] | None \<Rightarrow> []) @
     (case vacant_only c of Some b \<Rightarrow> if b then [[Cond OwnerIsNull, KwOr, Cond OwnerEqEmpty]] else [] | None \<Rightarrow> []) @
     (case min_road_frontage c of Some x \<Rightarrow> if x \<noteq> 0 then [[Cond (FrontageGe x)]] else [] | None \<Rightarrow> []) @
     (case slope_range c of
        Some [lo, hi] \<Rightarrow> [[Cond (SlopeBetween lo hi)]]
      | _ \<Rightarrow> [])"

text \<open>\<open>" AND ".join(where_conditions)\<close>\<close>

fun join_and :: "token list list \<Rightarrow> token list" where
  "join_and [] = []"
| "join_and [c] = c"
| "join_and (c # cs) = c @ KwAnd # join_and cs"

definition where_clause :: "criteria \<Rightarrow> token list" where
  "where_clause c =
     (if where_conditions c \<noteq> [] then join_and (where_conditions c) else [Cond OneEqOne])"

text \<open>
  SQL's three truth values: \<open>None\<close> is unknown. A comparison with \<open>NULL\<close> is unknown;
  \<open>IS NULL\<close> is never unknown.
\<close>

fun sql_and :: "bool option \<Rightarrow> bool option \<Rightarrow> bool option" where
  "sql_and (Some False) q = Some False"
| "sql_and p (Some False) = Some False"
| "sql_and (Some True) (Some True) = Some True"
| "sql_and p q = None"

fun sql_or :: "bool option \<Rightarrow> bool option \<Rightarrow> bool option" where
  "sql_or (Some True) q = Some True"
| "sql_or p (Some True) = Some True"
| "sql_or (Some False) (Some False) = Some False"
| "sql_or p q = None"

fun eval_atom :: "atom \<Rightarrow> parcel_row \<Rightarrow> bool option" where
  "eval_atom (AcresGe x) r = map_option (\<lambda>a. x \<le> a) (acres r)"
| "eval_atom (AcresLe x) r = map_option (\<lambda>a. a \<le> x) (acres r)"
| "eval_atom (ZoningEq z) r = map_option (\<lambda>code. code = z) (zoning_code r)"
| "eval_atom OwnerIsNull r = Some (owner_name r = None)"
| "eval_atom OwnerEqEmpty r = map_option (\<lambda>n. n = []) (owner_name r)"
| "eval_atom (FrontageGe x) r = map_option (\<lambda>f. x \<le> f) (road_frontage r)"
| "eval_atom (SlopeBetween lo hi) r = map_option (\<lambda>s. lo \<le> s \<and> s \<le> hi) (slope_percent r)"
| "eval_atom OneEqOne r = Some True"

text \<open>
  How the server reads a clause without parentheses: \<open>AND\<close> binds tighter than \<open>OR\<close>, so
  the clause is a disjunction, cut at every \<open>OR\<close>, of conjunctions.
\<close>

fun or_groups :: "token list \<Rightarrow> atom list list" where
  "or_groups [] = [[]]"
| "or_groups (KwOr # ts) = [] # or_groups ts"
| "or_groups (KwAnd # ts) = or_groups ts"
| "or_groups (Cond a # ts) = (case or_groups ts of g # gs \<Rightarrow> (a # g) # gs | [] \<Rightarrow> [[a]])"

definition eval_group :: "atom list \<Rightarrow> parcel_row \<Rightarrow> bool option" where
  "eval_group g r = foldr (\<lambda>a acc. sql_and (eval_atom a r) acc) g (Some True)"

definition eval_where :: "token list \<Rightarrow> parcel_row \<Rightarrow> bool option" where
  "eval_where ts r = foldr (\<lambda>g acc. sql_or (eval_group g r) acc) (or_groups ts) (Some False)"

text \<open>
  \<open>ORDER BY acres DESC\<close>: larger first, and \<open>NULL\<close> before every number, which is the
  server's default for a descending sort. The sort is stable on the scan order; as the
  scan order is arbitrary, every order the server may give to equal keys is covered.
\<close>

definition acres_key :: "parcel_row \<Rightarrow> rat option" where
  "acres_key r = map_option uminus (acres r)"

definition order_by_acres_desc :: "parcel_row list \<Rightarrow> parcel_row list" where
  "order_by_acres_desc rows = sort_key acres_key rows"

text \<open>
  \<open>search_parcels\<close>: the rows for which the clause is true, sorted, the first 100. The
  result of \<open>execute_query\<close> is \<open>None\<close> when the query cannot run. The select list (ten of
  the columns, the geometry as GeoJSON text) is a projection of the row.
\<close>

definition search_parcels :: "criteria \<Rightarrow> db \<Rightarrow> parcel_row list option" where
  "search_parcels c d =
     (if online d
      then Some (take 100 (order_by_acres_desc
                  (filter (\<lambda>r. eval_where (where_clause c) r = Some True) (parcels d))))
      else None)"

section \<open>Ingestion pipeline (data\_import.py)\<close>

text \<open>
  What a request to the GIS service comes to: a \<open>RequestException\<close> (no connection, a
  timeout, an HTTP error status), a body that is not JSON, or a decoded body.
\<close>

datatype response = RequestFailed | BadJson | Body json

fun has_len :: "json \<Rightarrow> bool" where
  "has_len (JStr s) = True"
| "has_len (JArr xs) = True"
| "has_len (JObj kvs) = True"
| "has_len v = False"

text \<open>
  \<open>fetch_arcgis_data\<close>: every exception gives \<open>None\<close>. The log line after decoding
  computes \<open>len(data.get('features', []))\<close> inside the \<open>try\<close>, so a body that is not a
  dict, or whose \<open>features\<close> has no length, gives \<open>None\<close> too.
\<close>

definition fetch_arcgis_data :: "response \<Rightarrow> json option" where
  "fetch_arcgis_data resp =
     (case resp of
        RequestFailed \<Rightarrow> None
      | BadJson \<Rightarrow> None
      | Body data \<Rightarrow>
          (case data of
             JObj d \<Rightarrow> if has_len (dict_get_default d ''features'' (JArr [])) then Some data else None
           | _ \<Rightarrow> None))"

text \<open>
  Between the importer's dict and the statement's typed parameters stands the database
  driver, which adapts each Python value to SQL, and the server, which casts it to the
  column. Neither is in the repository: \<open>adapt_parcel\<close> and \<open>adapt_zoning\<close> give the typed
  parameters, or \<open>None\<close> when a value cannot be adapted or cast (\<open>execute_query\<close> then
  catches the error and returns \<open>None\<close>), and \<open>accepts\<close> is the server's check of a row.
\<close>

record driver =
  adapt_parcel :: "parcel_dict \<Rightarrow> geometry_arg parcel_data option"
  adapt_zoning :: "json \<Rightarrow> json \<Rightarrow> (string \<times> string option) option"
  accepts :: "json parcel_data \<Rightarrow> bool"

text \<open>\<open>db_manager.insert_parcel_data(parcel)\<close> as the importer calls it: the result is dropped.\<close>

definition store_parcel :: "driver \<Rightarrow> nat \<Rightarrow> parcel_dict \<Rightarrow> db \<Rightarrow> db" where
  "store_parcel drv now parcel d =
     (case adapt_parcel drv parcel of
        None \<Rightarrow> d
      | Some p \<Rightarrow> snd (insert_parcel_data (accepts drv) now p d))"

text \<open>
  One parcel layer: \<open>if data:\<close>, then \<open>process_parcel_data\<close>, then one insert for each
  parcel; \<open>mark\<close> is what the caller's loop does to the dict before the insert.
\<close>

definition import_parcels ::
  "pyenv \<Rightarrow> driver \<Rightarrow> nat \<Rightarrow> (parcel_dict \<Rightarrow> parcel_dict) \<Rightarrow> json option \<Rightarrow> db \<Rightarrow> exn + db" where
  "import_parcels env drv now mark fetched d =
     (case fetched of
        None \<Rightarrow> Inr d
      | Some data \<Rightarrow>
          if truthy data then
            (case process_parcel_data env data of
               Inl e \<Rightarrow> Inl e
             | Inr processed \<Rightarrow> Inr (fold (\<lambda>parcel. store_parcel drv now (mark parcel)) processed d))
          else Inr d)"

text \<open>
  The zoning statement: \<open>INSERT ... ON CONFLICT (zone_code) DO UPDATE SET
  zone_description = EXCLUDED.zone_description\<close>.
\<close>

definition execute_zoning :: "driver \<Rightarrow> json \<Rightarrow> json \<Rightarrow> db \<Rightarrow> db" where
  "execute_zoning drv zone_code zone_desc d =
     (if \<not> online d then d
      else (case adapt_zoning drv zone_code zone_desc of
              None \<Rightarrow> d
            | Some (code, desc) \<Rightarrow>
                d \<lparr> zoning_regulations :=
                      (if code \<in> fst ` set (zoning_regulations d)
                       then map (\<lambda>z. if fst z = code then (code, desc) else z) (zoning_regulations d)
                       else zoning_regulations d @ [(code, desc)]) \<rparr>))"

text \<open>The body of the loop of \<open>_import_zoning_data\<close>; an exception leaves the tables as they are.\<close>

definition zoning_feature :: "driver \<Rightarrow> json \<Rightarrow> db \<Rightarrow> db" where
  "zoning_feature drv feature d =
     (case feature of
        JObj f \<Rightarrow>
          (case dict_get_default f ''properties'' (JObj []) of
             JObj props \<Rightarrow>
               (let zone_code = dict_get props ''ZoneDes'';
                    zone_desc = dict_get props ''ZoneDesc''
                in if truthy zone_code then execute_zoning drv zone_code zone_desc d else d)
           | _ \<Rightarrow> d)
      | _ \<Rightarrow> d)"

definition import_zoning_data :: "driver \<Rightarrow> json \<Rightarrow> db \<Rightarrow> exn + db" where
  "import_zoning_data drv zoning_data d =
     (case features_of zoning_data of
        Inl e \<Rightarrow> Inl e
      | Inr None \<Rightarrow> Inr d
      | Inr (Some fs) \<Rightarrow> Inr (fold (zoning_feature drv) fs d))"

text \<open>
  \<open>import_all_data\<close>, on the three responses of the service: the parcel layer, the
  vacant-land layer, the zoning layer. An exception anywhere in the body ends the run
  with \<open>False\<close>; what was stored before stays stored.
\<close>

definition import_all_data ::
  "pyenv \<Rightarrow> driver \<Rightarrow> nat \<Rightarrow> response \<Rightarrow> response \<Rightarrow> response \<Rightarrow> db \<Rightarrow> bool \<times> db" where
  "import_all_data env drv now parcel_resp vacant_resp zoning_resp d =
     (case import_parcels env drv now (\<lambda>parcel. parcel) (fetch_arcgis_data parcel_resp) d of
        Inl e \<Rightarrow> (False, d)
      | Inr d1 \<Rightarrow>
     (case import_parcels env drv now (\<lambda>parcel. parcel \<lparr> pd_owner_name := [] \<rparr>)
             (fetch_arcgis_data vacant_resp) d1 of
        Inl e \<Rightarrow> (False, d1)
      | Inr d2 \<Rightarrow>
     (case (case fetch_arcgis_data zoning_resp of
              None \<Rightarrow> Inr d2
            | Some zoning_data \<Rightarrow>
                if truthy zoning_data then import_zoning_data drv zoning_data d2 else Inr d2) of
        Inl e \<Rightarrow> (False, d2)
      | Inr d3 \<Rightarrow> (True, d3))))"

section \<open>Notions and sample data of the statements\<close>

text \<open>A criteria dict with no key, and a response whose body is a feature collection.\<close>

definition no_criteria :: criteria where
  "no_criteria = \<lparr> min_acres = None, max_acres = None, zoning_type = None,
                   vacant_only = None, min_road_frontage = None, slope_range = None \<rparr>"

definition feature_collection :: "json list \<Rightarrow> response" where
  "feature_collection fs = Body (JObj [(''features'', JArr fs)])"

text \<open>
  Descending order of acreage as the server sorts it: a row without acreage comes
  first, then larger before smaller.
\<close>

definition acres_desc :: "parcel_row \<Rightarrow> parcel_row \<Rightarrow> bool" where
  "acres_desc r1 r2 =
     (case acres r1 of
        None \<Rightarrow> True
      | Some a \<Rightarrow> (case acres r2 of None \<Rightarrow> False | Some b \<Rightarrow> b \<le> a))"


text \<open>A key of the property bag that is absent or bound to a string.\<close>

definition absent_or_str :: "(string \<times> json) list \<Rightarrow> string \<Rightarrow> bool" where
  "absent_or_str properties k =
     (case map_of properties k of None \<Rightarrow> True | Some (JStr s) \<Rightarrow> True | Some _ \<Rightarrow> False)"

text \<open>
  For runs on concrete input: a runtime whose \<open>float\<close> rejects every string and whose
  frontage loop fails, a driver that passes a string or \<open>None\<close> to a text column and
  fails on any other value, and a server that accepts every row.
\<close>

definition sample_env :: pyenv where
  "sample_env = \<lparr> float_of_str = (\<lambda>s. None), perimeter_feet = (\<lambda>ring. None) \<rparr>"




definition empty_db :: db where
  "empty_db = \<lparr> online = True, parcels = [], zoning_regulations = [] \<rparr>"

definition sample_row :: "string \<Rightarrow> rat option \<Rightarrow> string option \<Rightarrow> parcel_row" where
  "sample_row pid ac owner =
     \<lparr> parcel_id = Some pid, address = None, owner_name = owner, owner_address = None,
       acres = ac, zoning_code = None, land_use = None, road_frontage = None,
       slope_percent = None, utilities = [], geometry = JNull,
       created_at = 0, updated_at = 0 \<rparr>"


definition square :: json where
  "square = JObj [(''type'', JStr ''Polygon''),
                  (''coordinates'', JArr [JArr [JArr [JNum 0, JNum 0], JArr [JNum 1, JNum 0],
                                                JArr [JNum 1, JNum 1], JArr [JNum 0, JNum 1],
                                                JArr [JNum 0, JNum 0]]])]"

definition feature :: "(string \<times> json) list \<Rightarrow> json" where
  "feature properties = JObj [(''type'', JStr ''Feature''), (''properties'', JObj properties),
                              (''geometry'', square)]"

section \<open>Properties of the feature normalizer\<close>

lemma name_field_cases:
  "name_field props k =
     (case map_of props k of
        None \<Rightarrow> Inr []
      | Some (JStr s) \<Rightarrow> Inr (strip s)
      | Some _ \<Rightarrow> Inl AttributeError)"
  by (simp add: name_field_def dict_get_default_def strip_def split: option.splits json.splits)

lemma name_field_null: "map_of props k = Some JNull \<Longrightarrow> name_field props k = Inl AttributeError"
  by (simp add: name_field_cases)

lemma name_field_exn: "name_field props k = Inl e \<Longrightarrow> e = AttributeError"
  by (auto simp: name_field_cases split: option.splits json.splits)

lemma name_field_total_iff: "(\<exists>s. name_field props k = Inr s) = absent_or_str props k"
  by (auto simp: name_field_cases absent_or_str_def split: option.splits json.splits)

lemma combine_null:
  assumes "map_of props ''Owner_FirstName'' = Some JNull \<or> map_of props ''Owner_LastName'' = Some JNull"
  shows "combine_owner_names props = Inl AttributeError"
proof (cases "name_field props ''Owner_FirstName''")
  case (Inl e)
  then show ?thesis using name_field_exn[OF Inl] by (simp add: combine_owner_names_def)
next
  case (Inr s)
  then have "map_of props ''Owner_FirstName'' \<noteq> Some JNull" by (auto simp: name_field_cases)
  with assms have "map_of props ''Owner_LastName'' = Some JNull" by simp
  then show ?thesis using Inr by (simp add: combine_owner_names_def name_field_null)
qed

lemma combine_total_iff:
  "(\<exists>s. combine_owner_names props = Inr s)
     = (absent_or_str props ''Owner_FirstName'' \<and> absent_or_str props ''Owner_LastName'')"
  unfolding name_field_total_iff[symmetric]
  by (auto simp: combine_owner_names_def split: sum.splits)

lemma process_feature_owner_exn:
  assumes "combine_owner_names props = Inl e"
    and "dict_get_default f ''properties'' (JObj []) = JObj props"
  shows "process_feature env (JObj f) = (if truthy (dict_get f ''geometry'') then Inl e else Inr None)"
  using assms by (simp add: process_feature_def Let_def)

lemma process_features_append:
  "process_features env (xs @ ys) = process_features env xs @ process_features env ys"
  by (induction xs) (auto split: sum.splits option.splits)

lemma process_features_drop:
  assumes "\<forall>p. process_feature env f \<noteq> Inr (Some p)"
  shows "process_features env (xs @ f # ys) = process_features env xs @ process_features env ys"
  using assms by (auto simp: process_features_append split: sum.splits option.splits)

text \<open>A feature collection passes the fetch, and its features are the ones processed.\<close>

lemma fetch_feature_collection:
  "fetch_arcgis_data (feature_collection fs) = Some (JObj [(''features'', JArr fs)])"
  by (simp add: fetch_arcgis_data_def feature_collection_def dict_get_default_def)

lemma process_feature_collection:
  "process_parcel_data env (JObj [(''features'', JArr fs)]) = Inr (process_features env fs)"
  by (simp add: process_parcel_data_def features_of_def)

lemma import_parcels_collection:
  "import_parcels env drv now mark (fetch_arcgis_data (feature_collection fs)) d
     = Inr (fold (\<lambda>parcel. store_parcel drv now (mark parcel)) (process_features env fs) d)"
  by (simp add: import_parcels_def fetch_feature_collection process_feature_collection)

lemma import_parcels_drop:
  assumes "\<forall>p. process_feature env f \<noteq> Inr (Some p)"
  shows "import_parcels env drv now mark (fetch_arcgis_data (feature_collection (xs @ f # ys))) d
       = import_parcels env drv now mark (fetch_arcgis_data (feature_collection (xs @ ys))) d"
proof -
  have "process_features env (xs @ f # ys) = process_features env xs @ process_features env ys"
    by (rule process_features_drop[OF assms])
  also have "\<dots> = process_features env (xs @ ys)"
    by (rule process_features_append[symmetric])
  finally show ?thesis by (simp only: import_parcels_collection)
qed

lemma import_all_drop_parcel:
  assumes "\<forall>p. process_feature env f \<noteq> Inr (Some p)"
  shows "import_all_data env drv now (feature_collection (xs @ f # ys)) r2 r3 d
       = import_all_data env drv now (feature_collection (xs @ ys)) r2 r3 d"
  unfolding import_all_data_def by (simp only: import_parcels_drop[OF assms])

lemma import_all_drop_vacant:
  assumes "\<forall>p. process_feature env f \<noteq> Inr (Some p)"
  shows "import_all_data env drv now r1 (feature_collection (xs @ f # ys)) r3 d
       = import_all_data env drv now r1 (feature_collection (xs @ ys)) r3 d"
  unfolding import_all_data_def by (simp only: import_parcels_drop[OF assms])

section \<open>Owner names\<close>

text \<open>
  Claim C10: when the property bag binds \<open>Owner_FirstName\<close> or \<open>Owner_LastName\<close> to
  \<open>None\<close>, \<open>_combine_owner_names\<close> raises (there is no \<open>strip\<close> on \<open>None\<close>); for a feature
  with that bag the loop of \<open>process_parcel_data\<close> catches the exception and goes on, so
  the feature yields no parcel, whatever its identifier and geometry, and an import
  stores what it would store without the feature. The owner names are combined without
  an exception exactly for the bags in which both keys are absent or bound to strings.
\<close>

theorem null_owner_name_drops_feature:
  "(map_of props ''Owner_FirstName'' = Some JNull \<or> map_of props ''Owner_LastName'' = Some JNull \<longrightarrow>
      combine_owner_names props = Inl AttributeError
      \<and> (dict_get_default f ''properties'' (JObj []) = JObj props \<longrightarrow>
           (truthy (dict_get f ''geometry'') \<longrightarrow> process_feature env (JObj f) = Inl AttributeError)
           \<and> (\<forall>p. process_feature env (JObj f) \<noteq> Inr (Some p))
           \<and> process_features env (before @ JObj f # after)
               = process_features env before @ process_features env after
           \<and> import_all_data env drv now (feature_collection (before @ JObj f # after)) r2 r3 d
               = import_all_data env drv now (feature_collection (before @ after)) r2 r3 d
           \<and> import_all_data env drv now r1 (feature_collection (before @ JObj f # after)) r3 d
               = import_all_data env drv now r1 (feature_collection (before @ after)) r3 d))
   \<and> ((\<exists>s. combine_owner_names props = Inr s)
        = (absent_or_str props ''Owner_FirstName'' \<and> absent_or_str props ''Owner_LastName''))"
proof -
  {
    assume null: "map_of props ''Owner_FirstName'' = Some JNull \<or> map_of props ''Owner_LastName'' = Some JNull"
    have raises: "combine_owner_names props = Inl AttributeError"
      using null by (rule combine_null)
    {
      assume bag: "dict_get_default f ''properties'' (JObj []) = JObj props"
      have pf: "process_feature env (JObj f)
                  = (if truthy (dict_get f ''geometry'') then Inl AttributeError else Inr None)"
        using raises bag by (rule process_feature_owner_exn)
      then have none: "\<forall>p. process_feature env (JObj f) \<noteq> Inr (Some p)"
        by simp
      have "(truthy (dict_get f ''geometry'') \<longrightarrow> process_feature env (JObj f) = Inl AttributeError)
           \<and> (\<forall>p. process_feature env (JObj f) \<noteq> Inr (Some p))
           \<and> process_features env (before @ JObj f # after)
               = process_features env before @ process_features env after
           \<and> import_all_data env drv now (feature_collection (before @ JObj f # after)) r2 r3 d
               = import_all_data env drv now (feature_collection (before @ after)) r2 r3 d
           \<and> import_all_data env drv now r1 (feature_collection (before @ JObj f # after)) r3 d
               = import_all_data env drv now r1 (feature_collection (before @ after)) r3 d"
        using pf none process_features_drop[OF none] import_all_drop_parcel[OF none]
          import_all_drop_vacant[OF none]
        by simp
    }
    note feature_part = this
    have "combine_owner_names props = Inl AttributeError
      \<and> (dict_get_default f ''properties'' (JObj []) = JObj props \<longrightarrow>
           (truthy (dict_get f ''geometry'') \<longrightarrow> process_feature env (JObj f) = Inl AttributeError)
           \<and> (\<forall>p. process_feature env (JObj f) \<noteq> Inr (Some p))
           \<and> process_features env (before @ JObj f # after)
               = process_features env before @ process_features env after
           \<and> import_all_data env drv now (feature_collection (before @ JObj f # after)) r2 r3 d
               = import_all_data env drv now (feature_collection (before @ after)) r2 r3 d
           \<and> import_all_data env drv now r1 (feature_collection (before @ JObj f # after)) r3 d
               = import_all_data env drv now r1 (feature_collection (before @ after)) r3 d)"
      using raises feature_part by blast
  }
  then show ?thesis using combine_total_iff[of props] by blast
qed

theorem null_owner_name_drops_feature_witness:
  "combine_owner_names [(''PID'', JStr ''P7''), (''Owner_FirstName'', JNull)] = Inl AttributeError
   \<and> process_feature sample_env (feature [(''PID'', JStr ''P7''), (''Owner_FirstName'', JNull)])
       = Inl AttributeError
   \<and> process_features sample_env [feature [(''PID'', JStr ''P7''), (''Owner_FirstName'', JNull)]] = []"
  using null_owner_name_drops_feature
    [of "[(''PID'', JStr ''P7''), (''Owner_FirstName'', JNull)]"
        "[(''type'', JStr ''Feature''),
          (''properties'', JObj [(''PID'', JStr ''P7''), (''Owner_FirstName'', JNull)]),
          (''geometry'', square)]"
        sample_env "[]" "[]"]
  by (simp add: feature_def dict_get_default_def dict_get_def square_def)

section \<open>Land use\<close>

text \<open>
  Claim C3: land-use inference uppercases the zoning code and then classifies it. The
  code uppercases only the value of key \<open>zoning\<close>; a value of key \<open>ZoneDes\<close> is classified
  as it is, so the lower-case code \<open>r-3\<close> is Mixed Use under \<open>ZoneDes\<close> and Residential
  under \<open>zoning\<close>.
\<close>

theorem zonedes_is_not_uppercased:
  "determine_land_use [(''ZoneDes'', JStr ''r-3'')] = Inr ''Mixed Use''
   \<and> determine_land_use [(''zoning'', JStr ''r-3'')] = Inr ''Residential''"
  by code_simp

section \<open>Candidate keys\<close>

text \<open>
  Claim C4, as amended: each of identifier, address, acreage and zoning code is read
  from two candidate keys in priority order (\<open>PID\<close> then \<open>parcel_id\<close>, \<open>Mailing_Address\<close>
  then \<open>address\<close>, \<open>Total_Acreage\<close> then \<open>acres\<close>, \<open>ZoneDes\<close> then \<open>zoning\<close>). The value of the
  first key is used when it is truthy (present, not \<open>None\<close>, not zero, not empty);
  otherwise the value of the second key is used, \<open>None\<close> when that key is absent. The
  acreage then goes through \<open>_parse_acres\<close>.
\<close>

theorem candidate_keys_by_truthiness:
  assumes "process_feature env (JObj f) = Inr (Some p)"
    and "dict_get_default f ''properties'' (JObj []) = JObj props"
  shows "pd_parcel_id p = (if truthy (dict_get props ''PID'') then dict_get props ''PID''
                           else dict_get props ''parcel_id'')
       \<and> pd_address p = (if truthy (dict_get props ''Mailing_Address'') then dict_get props ''Mailing_Address''
                          else dict_get props ''address'')
       \<and> pd_acres p = parse_acres env (if truthy (dict_get props ''Total_Acreage'') then dict_get props ''Total_Acreage''
                                        else dict_get props ''acres'')
       \<and> pd_zoning_code p = (if truthy (dict_get props ''ZoneDes'') then dict_get props ''ZoneDes''
                              else dict_get props ''zoning'')"
  using assms
  by (auto simp: process_feature_def Let_def py_or_def split: if_splits sum.splits)

theorem candidate_keys_by_truthiness_witness:
  "process_feature sample_env
      (feature [(''PID'', JStr ''P7''), (''parcel_id'', JStr ''Q''), (''acres'', JNum 3)])
     = Inr (Some \<lparr> pd_parcel_id = JStr ''P7'', pd_address = JNull, pd_owner_name = [],
                    pd_owner_address = JNull, pd_acres = Some 3, pd_zoning_code = JNull,
                    pd_land_use = ''Mixed Use'', pd_road_frontage = None, pd_slope_percent = None,
                    pd_utilities = [''Water'', ''Sewer'', ''Electric''], pd_geometry = square \<rparr>)
   \<and> pd_parcel_id \<lparr> pd_parcel_id = JStr ''P7'', pd_address = JNull, pd_owner_name = [],
                    pd_owner_address = JNull, pd_acres = Some 3, pd_zoning_code = JNull,
                    pd_land_use = ''Mixed Use'', pd_road_frontage = None, pd_slope_percent = None,
                    pd_utilities = [''Water'', ''Sewer'', ''Electric''], pd_geometry = square \<rparr>
       = dict_get [(''PID'', JStr ''P7''), (''parcel_id'', JStr ''Q''), (''acres'', JNum 3)] ''PID''"
proof -
  have run: "process_feature sample_env
      (JObj [(''type'', JStr ''Feature''),
             (''properties'', JObj [(''PID'', JStr ''P7''), (''parcel_id'', JStr ''Q''), (''acres'', JNum 3)]),
             (''geometry'', square)])
     = Inr (Some \<lparr> pd_parcel_id = JStr ''P7'', pd_address = JNull, pd_owner_name = [],
                    pd_owner_address = JNull, pd_acres = Some 3, pd_zoning_code = JNull,
                    pd_land_use = ''Mixed Use'', pd_road_frontage = None, pd_slope_percent = None,
                    pd_utilities = [''Water'', ''Sewer'', ''Electric''], pd_geometry = square \<rparr>)"
    by code_simp
  have bag: "dict_get_default [(''type'', JStr ''Feature''),
             (''properties'', JObj [(''PID'', JStr ''P7''), (''parcel_id'', JStr ''Q''), (''acres'', JNum 3)]),
             (''geometry'', square)] ''properties'' (JObj [])
     = JObj [(''PID'', JStr ''P7''), (''parcel_id'', JStr ''Q''), (''acres'', JNum 3)]"
    by (simp add: dict_get_default_def)
  show ?thesis
    using candidate_keys_by_truthiness [OF run bag] run
    by (simp add: feature_def dict_get_def)
qed

text \<open>
  Claim C4 as stated fails: with \<open>PID\<close> bound to the empty string and \<open>Total_Acreage\<close>
  bound to 0, both present and not \<open>None\<close>, the parcel gets the identifier of key
  \<open>parcel_id\<close> and the acreage of key \<open>acres\<close>.
\<close>

theorem falsy_first_candidate_is_skipped:
  "process_feature sample_env
     (feature [(''PID'', JStr []), (''parcel_id'', JStr ''X7''),
               (''Total_Acreage'', JNum 0), (''acres'', JNum 5)])
   = Inr (Some \<lparr> pd_parcel_id = JStr ''X7'', pd_address = JNull, pd_owner_name = [],
                  pd_owner_address = JNull, pd_acres = Some 5, pd_zoning_code = JNull,
                  pd_land_use = ''Mixed Use'', pd_road_frontage = None, pd_slope_percent = None,
                  pd_utilities = [''Water'', ''Sewer'', ''Electric''], pd_geometry = square \<rparr>)"
  by code_simp

section \<open>Properties of the search\<close>

text \<open>A clause that is built from single comparisons only is read as their conjunction.\<close>

lemma or_groups_join_and:
  "or_groups (join_and (map (\<lambda>a. [Cond a]) atoms)) = [atoms]"
proof (induction atoms)
  case Nil
  show ?case by simp
next
  case (Cons a rest)
  show ?case
  proof (cases rest)
    case Nil
    then show ?thesis by simp
  next
    case (Cons b more)
    then show ?thesis using Cons.IH by simp
  qed
qed

lemma sql_and_true_iff: "(sql_and p q = Some True) = (p = Some True \<and> q = Some True)"
  by (cases "(p, q)" rule: sql_and.cases) auto

lemma sql_or_false_right: "(sql_or p (Some False) = Some True) = (p = Some True)"
  by (cases "(p, Some False)" rule: sql_or.cases) auto

lemma eval_group_true_iff:
  "(eval_group g r = Some True) = (\<forall>a \<in> set g. eval_atom a r = Some True)"
  unfolding eval_group_def by (induction g) (auto simp: sql_and_true_iff)

lemma eval_where_conjunction:
  "(eval_where (join_and (map (\<lambda>a. [Cond a]) atoms)) r = Some True)
     = (\<forall>a \<in> set atoms. eval_atom a r = Some True)"
  by (simp add: eval_where_def or_groups_join_and sql_or_false_right eval_group_true_iff)

text \<open>Without the vacancy flag every condition is a single comparison.\<close>

lemma where_conditions_plain:
  assumes "vacant_only c \<noteq> Some True"
  shows "where_conditions c = map (\<lambda>a. [Cond a])
     ((case min_acres c of Some x \<Rightarrow> if x \<noteq> 0 then [AcresGe x] else [] | None \<Rightarrow> []) @
      (case max_acres c of Some x \<Rightarrow> if x \<noteq> 0 then [AcresLe x] else [] | None \<Rightarrow> []) @
      (case zoning_type c of Some z \<Rightarrow> if z \<noteq> [] then [ZoningEq z] else [] | None \<Rightarrow> []) @
      (case min_road_frontage c of Some x \<Rightarrow> if x \<noteq> 0 then [FrontageGe x] else [] | None \<Rightarrow> []) @
      (case slope_range c of Some [lo, hi] \<Rightarrow> [SlopeBetween lo hi] | _ \<Rightarrow> []))"
  using assms
  by (simp add: where_conditions_def split: option.splits list.splits)

lemma where_clause_plain:
  assumes "vacant_only c \<noteq> Some True"
  shows "(eval_where (where_clause c) r = Some True) =
     (\<forall>a \<in> set
       ((case min_acres c of Some x \<Rightarrow> if x \<noteq> 0 then [AcresGe x] else [] | None \<Rightarrow> []) @
        (case max_acres c of Some x \<Rightarrow> if x \<noteq> 0 then [AcresLe x] else [] | None \<Rightarrow> []) @
        (case zoning_type c of Some z \<Rightarrow> if z \<noteq> [] then [ZoningEq z] else [] | None \<Rightarrow> []) @
        (case min_road_frontage c of Some x \<Rightarrow> if x \<noteq> 0 then [FrontageGe x] else [] | None \<Rightarrow> []) @
        (case slope_range c of Some [lo, hi] \<Rightarrow> [SlopeBetween lo hi] | _ \<Rightarrow> [])).
        eval_atom a r = Some True)"
proof (cases "where_conditions c = []")
  case True
  then have "where_clause c = [Cond OneEqOne]" by (simp add: where_clause_def)
  moreover have "eval_where [Cond OneEqOne] r = Some True"
    by (simp add: eval_where_def eval_group_def)
  ultimately show ?thesis
    using True where_conditions_plain[OF assms] by simp
next
  case False
  then have "where_clause c = join_and (where_conditions c)" by (simp add: where_clause_def)
  then show ?thesis
    by (simp only: where_conditions_plain[OF assms] eval_where_conjunction)
qed

text \<open>The rows of a result are rows of the table for which the clause is true.\<close>

lemma search_result_rows:
  assumes "search_parcels c d = Some res" and "r \<in> set res"
  shows "r \<in> set (parcels d) \<and> eval_where (where_clause c) r = Some True"
proof -
  from assms(1) have res: "res = take 100 (order_by_acres_desc
                  (filter (\<lambda>r. eval_where (where_clause c) r = Some True) (parcels d)))"
    by (simp add: search_parcels_def split: if_splits)
  from assms(2) have "r \<in> set (order_by_acres_desc
                  (filter (\<lambda>r. eval_where (where_clause c) r = Some True) (parcels d)))"
    unfolding res by (rule in_set_takeD)
  then show ?thesis by (simp add: order_by_acres_desc_def)
qed

text \<open>The key of the sort is the descending order of the statements.\<close>

lemma acres_key_le: "(acres_key r1 \<le> acres_key r2) = acres_desc r1 r2"
  by (simp add: acres_key_def acres_desc_def split: option.splits)

lemma order_by_sorted: "sorted_wrt acres_desc (order_by_acres_desc rows)"
proof -
  have "sorted (map acres_key (sort_key acres_key rows))" by (rule sorted_sort_key)
  then show ?thesis
    by (simp add: order_by_acres_desc_def sorted_map acres_key_le)
qed

lemma order_by_mset: "mset (order_by_acres_desc rows) = mset rows"
  by (simp add: order_by_acres_desc_def)

lemma search_sorted_capped:
  assumes "search_parcels c d = Some res"
  shows "sorted_wrt acres_desc res \<and> length res \<le> 100"
proof -
  from assms have res: "res = take 100 (order_by_acres_desc
                  (filter (\<lambda>r. eval_where (where_clause c) r = Some True) (parcels d)))"
    by (simp add: search_parcels_def split: if_splits)
  show ?thesis unfolding res
    by (simp add: sorted_wrt_take order_by_sorted)
qed

lemma where_clause_no_criteria: "eval_where (where_clause no_criteria) r = Some True"
  by (simp add: where_clause_def where_conditions_def no_criteria_def eval_where_def eval_group_def)

section \<open>Search criteria\<close>

text \<open>
  Claim C1: the filter of \<open>search_parcels\<close> is the conjunction of one condition for each
  present, non-falsy key, also when \<open>vacant_only\<close> stands beside another key. The code
  joins its conditions with \<open>AND\<close>, but the vacancy condition carries an \<open>OR\<close> without
  parentheses, so with \<open>min_acres = 10\<close> and \<open>vacant_only\<close> the clause reads
  \<open>(acres >= 10 AND owner_name IS NULL) OR owner_name = ''\<close>: a one-acre parcel whose
  owner name is the empty string is returned, although it fails \<open>acres >= 10\<close>.
\<close>

theorem vacant_only_breaks_conjunction:
  "where_clause (no_criteria \<lparr> min_acres := Some 10, vacant_only := Some True \<rparr>)
     = [Cond (AcresGe 10), KwAnd, Cond OwnerIsNull, KwOr, Cond OwnerEqEmpty]
   \<and> search_parcels (no_criteria \<lparr> min_acres := Some 10, vacant_only := Some True \<rparr>)
        (empty_db \<lparr> parcels := [sample_row ''A'' (Some 1) (Some [])] \<rparr>)
     = Some [sample_row ''A'' (Some 1) (Some [])]
   \<and> eval_atom (AcresGe 10) (sample_row ''A'' (Some 1) (Some [])) = Some False"
  by code_simp

section \<open>Order and cap of a result\<close>

text \<open>
  Claim C5: with no key set, \<open>search_parcels\<close> returns all stored parcels in descending
  order of acreage, cut after 100 rows: the result is the first 100 rows of a list that
  holds exactly the rows of the table and is sorted. For every criteria dict the result
  is sorted in that order and has at most 100 rows. (A search returns rows when the
  query can run; otherwise \<open>execute_query\<close> gives \<open>None\<close>.)
\<close>

theorem search_all_sorted_capped:
  "(online d \<longrightarrow>
      (\<exists>ordered. search_parcels no_criteria d = Some (take 100 ordered)
                 \<and> mset ordered = mset (parcels d)
                 \<and> sorted_wrt acres_desc ordered))
   \<and> (search_parcels c d = Some res \<longrightarrow> sorted_wrt acres_desc res \<and> length res \<le> 100)"
proof -
  {
    assume "online d"
    then have "search_parcels no_criteria d = Some (take 100 (order_by_acres_desc (parcels d)))"
      by (simp add: search_parcels_def where_clause_no_criteria)
    then have "\<exists>ordered. search_parcels no_criteria d = Some (take 100 ordered)
                 \<and> mset ordered = mset (parcels d)
                 \<and> sorted_wrt acres_desc ordered"
      using order_by_mset order_by_sorted by blast
  }
  then show ?thesis using search_sorted_capped by blast
qed

theorem search_all_sorted_capped_witness:
  "search_parcels no_criteria
     (empty_db \<lparr> parcels := [sample_row ''A'' (Some 1) None, sample_row ''B'' (Some 20) None,
                              sample_row ''C'' None None] \<rparr>)
   = Some [sample_row ''C'' None None, sample_row ''B'' (Some 20) None, sample_row ''A'' (Some 1) None]
   \<and> sorted_wrt acres_desc
       [sample_row ''C'' None None, sample_row ''B'' (Some 20) None, sample_row ''A'' (Some 1) None]"
proof -
  have run: "search_parcels no_criteria
     (empty_db \<lparr> parcels := [sample_row ''A'' (Some 1) None, sample_row ''B'' (Some 20) None,
                              sample_row ''C'' None None] \<rparr>)
   = Some [sample_row ''C'' None None, sample_row ''B'' (Some 20) None, sample_row ''A'' (Some 1) None]"
    by code_simp
  show ?thesis
    using search_all_sorted_capped
      [of "empty_db \<lparr> parcels := [sample_row ''A'' (Some 1) None, sample_row ''B'' (Some 20) None,
                                   sample_row ''C'' None None] \<rparr>"
          no_criteria
          "[sample_row ''C'' None None, sample_row ''B'' (Some 20) None, sample_row ''A'' (Some 1) None]"]
      run
    by simp
qed

section \<open>Acreage bounds\<close>

text \<open>
  Claim C6, as amended: when \<open>min_acres = X\<close> and \<open>max_acres = Y\<close> are both set and both
  are not zero, and \<open>vacant_only\<close> is not set, every row returned by \<open>search_parcels\<close> has
  an acreage, and \<open>X \<le> acres \<le> Y\<close>. A bound of zero is falsy and adds no condition.
\<close>

theorem acreage_bounds_when_nonzero:
  assumes "min_acres c = Some X" and "max_acres c = Some Y"
    and "X \<noteq> 0" and "Y \<noteq> 0"
    and "vacant_only c \<noteq> Some True"
    and "search_parcels c d = Some res" and "r \<in> set res"
  shows "\<exists>a. acres r = Some a \<and> X \<le> a \<and> a \<le> Y"
proof -
  have "eval_where (where_clause c) r = Some True"
    using search_result_rows[OF assms(6,7)] by simp
  then have "eval_atom (AcresGe X) r = Some True \<and> eval_atom (AcresLe Y) r = Some True"
    using assms(1-4) by (simp add: where_clause_plain[OF assms(5)])
  then show ?thesis by auto
qed

theorem acreage_bounds_when_nonzero_witness:
  "\<exists>a. acres (sample_row ''B'' (Some 20) None) = Some a \<and> 10 \<le> a \<and> a \<le> 30"
proof -
  have run: "search_parcels (no_criteria \<lparr> min_acres := Some 10, max_acres := Some 30 \<rparr>)
      (empty_db \<lparr> parcels := [sample_row ''A'' (Some 1) None, sample_row ''B'' (Some 20) None] \<rparr>)
    = Some [sample_row ''B'' (Some 20) None]"
    by code_simp
  show ?thesis
    by (rule acreage_bounds_when_nonzero
         [where c = "no_criteria \<lparr> min_acres := Some 10, max_acres := Some 30 \<rparr>", OF _ _ _ _ _ run])
       (simp_all add: no_criteria_def)
qed

text \<open>
  Claim C6 as stated fails for a bound of zero: with \<open>min_acres = 0\<close> and \<open>max_acres = 0\<close>
  neither bound becomes a condition, and a parcel of five acres is returned.
\<close>

theorem zero_bounds_are_ignored:
  "search_parcels (no_criteria \<lparr> min_acres := Some 0, max_acres := Some 0 \<rparr>)
     (empty_db \<lparr> parcels := [sample_row ''A'' (Some 5) None] \<rparr>)
   = Some [sample_row ''A'' (Some 5) None]
   \<and> acres (sample_row ''A'' (Some 5) None) = Some 5"
  by code_simp

section \<open>Properties of the upsert\<close>























section \<open>Upsert\<close>



section \<open>Properties of the pipeline\<close>













section \<open>Import run\<close>



section \<open>End to end\<close>


end
